theory Spec2Isabelle
  imports Main "HOL-Library.AList"
begin

section \<open>Data model\<close>

text \<open>
  The tables of \<^verbatim>\<open>initializeDatabase\<close> (db.js).  Every column is a row field;
  a nullable column is an \<open>option\<close>.  \<^verbatim>\<open>DATETIME\<close> columns are points in time
  (a natural number), \<^verbatim>\<open>VARCHAR\<close> and \<^verbatim>\<open>DATE\<close> columns are strings, the
  \<^verbatim>\<open>role ENUM('student', 'company', 'admin')\<close> column is a datatype.
  SQL comparison of strings is modelled as equality of strings.  The connection
  pool executes every statement it is given: the one exception a statement can
  raise here is a violated constraint of an \<^verbatim>\<open>INSERT\<close>.
\<close>

datatype role = Student | Company | Admin

record user_row =
  usr_userId :: string
  usr_email :: string
  usr_password :: string
  usr_name :: string
  usr_role :: role
  usr_createdAt :: nat

record developer_row =
  dev_id :: string
  dev_userId :: string
  dev_firstName :: string
  dev_lastName :: string
  dev_workType :: string
  dev_field :: string
  dev_github :: "string option"
  dev_linkedin :: "string option"
  dev_email :: string
  dev_createdAt :: nat
  dev_updatedAt :: "nat option"

record contact_row =
  con_id :: string
  con_userId :: string
  con_developerId :: string
  con_date :: string
  con_createdAt :: nat

record database =
  users :: "user_row list"
  developers :: "developer_row list"
  contacts :: "contact_row list"

text \<open>
  The payload of a verified token: \<^verbatim>\<open>jwt.sign({ userId, email, role }, ...)\<close>.
\<close>

record jwt_payload =
  jwt_userId :: string
  jwt_email :: string
  jwt_role :: role

section \<open>JavaScript values and JSON responses\<close>

text \<open>
  A JavaScript object is its list of own properties in insertion order.
  \<^verbatim>\<open>{...dev, email: undefined}\<close> keeps the property \<^verbatim>\<open>email\<close> with the
  value \<^verbatim>\<open>undefined\<close>; \<^verbatim>\<open>res.json\<close> serialises with
  \<^verbatim>\<open>JSON.stringify\<close>, which leaves out every property whose value is
  \<^verbatim>\<open>undefined\<close> and writes \<^verbatim>\<open>null\<close> for a null one.
\<close>

datatype jsval = Undefined | Null | Str string | DateTime nat

type_synonym jsobj = "(string \<times> jsval) list"

definition nullable :: "('a \<Rightarrow> jsval) \<Rightarrow> 'a option \<Rightarrow> jsval" where
  "nullable f v = (case v of None \<Rightarrow> Null | Some x \<Rightarrow> f x)"

text \<open>The object mysql2 returns for a row of \<^verbatim>\<open>SELECT * FROM developers\<close>.\<close>

definition developer_object :: "developer_row \<Rightarrow> jsobj" where
  "developer_object d =
     [(''id'', Str (dev_id d)),
      (''userId'', Str (dev_userId d)),
      (''firstName'', Str (dev_firstName d)),
      (''lastName'', Str (dev_lastName d)),
      (''workType'', Str (dev_workType d)),
      (''field'', Str (dev_field d)),
      (''github'', nullable Str (dev_github d)),
      (''linkedin'', nullable Str (dev_linkedin d)),
      (''email'', Str (dev_email d)),
      (''createdAt'', DateTime (dev_createdAt d)),
      (''updatedAt'', nullable DateTime (dev_updatedAt d))]"

text \<open>
  The object literal
  \<^verbatim>\<open>{ ...dev, email: undefined, github: undefined, linkedin: undefined }\<close>
  that both read handlers build to hide the contact info.
\<close>

definition hide_contact_info :: "jsobj \<Rightarrow> jsobj" where
  "hide_contact_info dev =
     AList.update ''linkedin'' Undefined
       (AList.update ''github'' Undefined
         (AList.update ''email'' Undefined dev))"

definition JSON_stringify :: "jsobj \<Rightarrow> jsobj" where
  "JSON_stringify obj = filter (\<lambda>kv. snd kv \<noteq> Undefined) obj"

text \<open>A property of a serialised object: \<open>None\<close> when the key is absent.\<close>

definition property :: "jsobj \<Rightarrow> string \<Rightarrow> jsval option" where
  "property obj k = map_of obj k"

section \<open>Credentials\<close>

text \<open>\<^verbatim>\<open>s.split(' ')\<close>: the pieces of \<open>s\<close> between single spaces.\<close>

fun split_space :: "string \<Rightarrow> string list" where
  "split_space [] = [[]]"
| "split_space (c # cs) =
     (if c = CHR '' '' then [] # split_space cs
      else (case split_space cs of
              [] \<Rightarrow> [[c]]
            | w # ws \<Rightarrow> (c # w) # ws))"

text \<open>
  \<^verbatim>\<open>req.headers['authorization']?.split(' ')[1]\<close>: \<open>None\<close> is \<^verbatim>\<open>undefined\<close>
  (no header, or no second piece).
\<close>

definition header_token :: "string option \<Rightarrow> string option" where
  "header_token authorization =
     (case authorization of
        None \<Rightarrow> None
      | Some h \<Rightarrow>
          (case split_space h of
             _ # t # _ \<Rightarrow> Some t
           | _ \<Rightarrow> None))"

section \<open>Read handlers\<close>

text \<open>
  \<^verbatim>\<open>SELECT * FROM developers ORDER BY createdAt DESC\<close> and
  \<^verbatim>\<open>SELECT * FROM developers WHERE id = ?\<close>.
\<close>

definition select_developers :: "database \<Rightarrow> developer_row list" where
  "select_developers db = rev (sort_key dev_createdAt (developers db))"

definition select_developer :: "database \<Rightarrow> string \<Rightarrow> developer_row list" where
  "select_developer db i = filter (\<lambda>d. dev_id d = i) (developers db)"

text \<open>
  \<^verbatim>\<open>GET /api/developers\<close>.  The parameter \<open>jwt_verify\<close> is
  \<^verbatim>\<open>jwt.verify(token, JWT_SECRET)\<close>: \<open>None\<close> when it throws (a token that is
  malformed, wrongly signed or expired).  \<^verbatim>\<open>!token\<close> holds of \<^verbatim>\<open>undefined\<close>
  and of the empty string.  The result is the \<^verbatim>\<open>data\<close> of the response as
  serialised by \<^verbatim>\<open>res.json\<close>.
\<close>

definition get_developers ::
  "(string \<Rightarrow> jwt_payload option) \<Rightarrow> string option \<Rightarrow> database \<Rightarrow> jsobj list" where
  "get_developers jwt_verify authorization db =
     (let developers = map developer_object (select_developers db);
          token = header_token authorization;
          filteredDevelopers =
            (case token of
               None \<Rightarrow> map hide_contact_info developers
             | Some t \<Rightarrow>
                 if t = [] then map hide_contact_info developers
                 else (case jwt_verify t of
                         Some decoded \<Rightarrow>
                           if jwt_role decoded = Company then map hide_contact_info developers
                           else developers
                       | None \<Rightarrow> map hide_contact_info developers))
      in map JSON_stringify filteredDevelopers)"

datatype http_error =
    AccessTokenRequired
  | InvalidToken
  | NotFound
  | SelfViewNotAllowed
  | RoleNotPermitted
  | CompanyRoleRequired
  | AdminRoleRequired
  | QuotaExceeded
  | ServerError

text \<open>
  The error responses, by what they say: status 401 (\<open>AccessTokenRequired\<close>), 403
  of \<^verbatim>\<open>authenticateToken\<close> (\<open>InvalidToken\<close>), 404 (\<open>NotFound\<close>), 400 of the
  contact route (\<open>SelfViewNotAllowed\<close>), 403 of the contact route
  (\<open>RoleNotPermitted\<close>), 403 of \<^verbatim>\<open>isCompany\<close> and \<^verbatim>\<open>isAdmin\<close>, 429
  (\<open>QuotaExceeded\<close>) and the 500 of a \<^verbatim>\<open>catch\<close> block (\<open>ServerError\<close>).

  \<^verbatim>\<open>GET /api/developers/:id\<close> follows.
\<close>

definition get_developer ::
  "(string \<Rightarrow> jwt_payload option) \<Rightarrow> string option \<Rightarrow> string \<Rightarrow> database \<Rightarrow> http_error + jsobj" where
  "get_developer jwt_verify authorization i db =
     (case select_developer db i of
        [] \<Rightarrow> Inl NotFound
      | row # _ \<Rightarrow>
          (let developer = developer_object row;
               token = header_token authorization;
               responseDeveloper =
                 (case token of
                    None \<Rightarrow> hide_contact_info developer
                  | Some t \<Rightarrow>
                      if t = [] then hide_contact_info developer
                      else (case jwt_verify t of
                              Some decoded \<Rightarrow>
                                if jwt_role decoded = Company then hide_contact_info developer
                                else developer
                            | None \<Rightarrow> hide_contact_info developer))
           in Inr (JSON_stringify responseDeveloper)))"

section \<open>Middleware\<close>

text \<open>
  \<^verbatim>\<open>authenticateToken\<close>: the token is
  \<^verbatim>\<open>authHeader && authHeader.split(' ')[1]\<close>; the result \<open>Inr user\<close> is
  \<^verbatim>\<open>req.user\<close> of the handler that runs next.
\<close>

definition authenticateToken ::
  "(string \<Rightarrow> jwt_payload option) \<Rightarrow> string option \<Rightarrow> http_error + jwt_payload" where
  "authenticateToken jwt_verify authHeader =
     (let token = (case authHeader of
                     None \<Rightarrow> None
                   | Some h \<Rightarrow> if h = [] then Some [] else header_token (Some h))
      in case token of
           None \<Rightarrow> Inl AccessTokenRequired
         | Some t \<Rightarrow>
             if t = [] then Inl AccessTokenRequired
             else (case jwt_verify t of
                     None \<Rightarrow> Inl InvalidToken
                   | Some user \<Rightarrow> Inr user))"

definition isCompany :: "jwt_payload \<Rightarrow> http_error + jwt_payload" where
  "isCompany user = (if jwt_role user \<noteq> Company then Inl CompanyRoleRequired else Inr user)"

definition isAdmin :: "jwt_payload \<Rightarrow> http_error + jwt_payload" where
  "isAdmin user = (if jwt_role user \<noteq> Admin then Inl AdminRoleRequired else Inr user)"

section \<open>The contacts table\<close>

text \<open>
  \<^verbatim>\<open>SELECT id FROM contacts WHERE userId = ? AND developerId = ? AND date = ?\<close>
\<close>

definition select_contacts :: "database \<Rightarrow> string \<Rightarrow> string \<Rightarrow> string \<Rightarrow> contact_row list" where
  "select_contacts db uid did day =
     filter (\<lambda>c. con_userId c = uid \<and> con_developerId c = did \<and> con_date c = day) (contacts db)"

text \<open>
  \<^verbatim>\<open>SELECT COUNT(DISTINCT developerId) as count FROM contacts WHERE userId = ? AND date = ?\<close>:
  the distinct values of \<^verbatim>\<open>developerId\<close> among the viewer's rows of the day, and
  their number.
\<close>

definition distinct_developers :: "database \<Rightarrow> string \<Rightarrow> string \<Rightarrow> string list" where
  "distinct_developers db uid day =
     remdups (map con_developerId
       (filter (\<lambda>c. con_userId c = uid \<and> con_date c = day) (contacts db)))"

definition count_distinct_developers :: "database \<Rightarrow> string \<Rightarrow> string \<Rightarrow> nat" where
  "count_distinct_developers db uid day = length (distinct_developers db uid day)"

text \<open>
  The key of \<^verbatim>\<open>UNIQUE KEY unique_contact (userId, developerId, date)\<close>.
\<close>

definition unique_contact_key :: "contact_row \<Rightarrow> string \<times> string \<times> string" where
  "unique_contact_key c = (con_userId c, con_developerId c, con_date c)"

text \<open>
  \<^verbatim>\<open>INSERT INTO contacts (id, userId, developerId, date) VALUES (?, ?, ?, ?)\<close>.
  The table's constraints decide whether the statement inserts the row or throws
  (\<open>None\<close>): the primary key \<^verbatim>\<open>id\<close>, the unique key, and the two foreign keys.
  \<open>now\<close> is the \<^verbatim>\<open>CURRENT_TIMESTAMP\<close> that \<^verbatim>\<open>createdAt\<close> defaults to.
\<close>

definition insert_contact ::
  "database \<Rightarrow> nat \<Rightarrow> string \<Rightarrow> string \<Rightarrow> string \<Rightarrow> string \<Rightarrow> database option" where
  "insert_contact db now cid uid did day =
     (let row = \<lparr>con_id = cid, con_userId = uid, con_developerId = did, con_date = day,
                 con_createdAt = now\<rparr>
      in if cid \<in> set (map con_id (contacts db)) then None
         else if unique_contact_key row \<in> set (map unique_contact_key (contacts db)) then None
         else if uid \<notin> set (map usr_userId (users db)) then None
         else if did \<notin> set (map dev_id (developers db)) then None
         else Some (db\<lparr>contacts := contacts db @ [row]\<rparr>))"

section \<open>The contact route\<close>

text \<open>
  What the handler reads from the clock: \<open>today\<close> is
  \<^verbatim>\<open>new Date().toISOString().split('T')[0]\<close>, \<open>date_now\<close> is
  \<^verbatim>\<open>Date.now().toString()\<close> at the insert, \<open>current_timestamp\<close> is the
  database's clock at the insert.
\<close>

record clock =
  today :: string
  date_now :: string
  current_timestamp :: nat

text \<open>
  The handler of \<^verbatim>\<open>POST /api/developers/:id/contact\<close>, after
  \<^verbatim>\<open>authenticateToken\<close>: \<open>user\<close> is \<^verbatim>\<open>req.user\<close>, \<open>i\<close> is
  \<^verbatim>\<open>req.params.id\<close>.  A success is the pair of \<^verbatim>\<open>developer\<close> and
  \<^verbatim>\<open>remainingContacts\<close> of the response (\<open>None\<close> is \<^verbatim>\<open>null\<close>); the second
  component of the result is the database after the call.  An exception of the
  insert reaches the \<^verbatim>\<open>catch\<close> block, which answers 500.
\<close>

definition viewContact ::
  "jwt_payload \<Rightarrow> string \<Rightarrow> clock \<Rightarrow> database \<Rightarrow> (http_error + jsobj \<times> int option) \<times> database" where
  "viewContact user i clk db =
     (case select_developer db i of
        [] \<Rightarrow> (Inl NotFound, db)
      | developer # _ \<Rightarrow>
          if dev_userId developer = jwt_userId user then (Inl SelfViewNotAllowed, db)
          else if jwt_role user = Student then (Inl RoleNotPermitted, db)
          else
            (let existingContacts = select_contacts db (jwt_userId user) i (today clk);
                 alreadyViewed = (length existingContacts > 0);
                 written =
                   (if jwt_role user = Company \<and> \<not> alreadyViewed then
                      (if count_distinct_developers db (jwt_userId user) (today clk) \<ge> 10
                       then Inl QuotaExceeded
                       else (case insert_contact db (current_timestamp clk) (date_now clk)
                                    (jwt_userId user) i (today clk) of
                               None \<Rightarrow> Inl ServerError
                             | Some db' \<Rightarrow> Inr db'))
                    else Inr db)
             in case written of
                  Inl e \<Rightarrow> (Inl e, db)
                | Inr db' \<Rightarrow>
                    (let remainingContacts =
                           (if jwt_role user = Company
                            then Some (10 - int (count_distinct_developers db'
                                                   (jwt_userId user) (today clk)))
                            else None)
                     in (Inr (JSON_stringify (developer_object developer), remainingContacts),
                         db'))))"

text \<open>The whole route: the middleware, then the handler.\<close>

definition post_contact ::
  "(string \<Rightarrow> jwt_payload option) \<Rightarrow> string option \<Rightarrow> string \<Rightarrow> clock \<Rightarrow> database
     \<Rightarrow> (http_error + jsobj \<times> int option) \<times> database" where
  "post_contact jwt_verify authHeader i clk db =
     (case authenticateToken jwt_verify authHeader of
        Inl e \<Rightarrow> (Inl e, db)
      | Inr user \<Rightarrow> viewContact user i clk db)"

section \<open>The statistics route\<close>

record stats =
  contactsToday :: nat
  remainingContacts :: int
  limit :: int

text \<open>The handler of \<^verbatim>\<open>GET /api/contacts/stats\<close>, and the route with its middleware.\<close>

definition contact_stats :: "jwt_payload \<Rightarrow> string \<Rightarrow> database \<Rightarrow> stats" where
  "contact_stats user day db =
     (let count = count_distinct_developers db (jwt_userId user) day
      in \<lparr>contactsToday = count,
          remainingContacts = max 0 (10 - int count),
          limit = 10\<rparr>)"

definition get_contact_stats ::
  "(string \<Rightarrow> jwt_payload option) \<Rightarrow> string option \<Rightarrow> string \<Rightarrow> database \<Rightarrow> http_error + stats" where
  "get_contact_stats jwt_verify authHeader day db =
     (case authenticateToken jwt_verify authHeader of
        Inl e \<Rightarrow> Inl e
      | Inr user \<Rightarrow>
          (case isCompany user of
             Inl e \<Rightarrow> Inl e
           | Inr company \<Rightarrow> Inr (contact_stats company day db)))"

section \<open>The administrator's deletions\<close>

text \<open>
  \<^verbatim>\<open>DELETE FROM users WHERE userId = ?\<close> and
  \<^verbatim>\<open>DELETE FROM developers WHERE id = ?\<close>, with the \<^verbatim>\<open>ON DELETE CASCADE\<close> of
  the foreign keys: a user's developer profile goes with the user, and a contact
  goes with its viewer and with its developer.
\<close>

definition delete_developer :: "database \<Rightarrow> string \<Rightarrow> database" where
  "delete_developer db i =
     db\<lparr>developers := filter (\<lambda>d. dev_id d \<noteq> i) (developers db),
        contacts := filter (\<lambda>c. con_developerId c \<noteq> i) (contacts db)\<rparr>"

definition delete_user :: "database \<Rightarrow> string \<Rightarrow> database" where
  "delete_user db uid =
     (let profiles = map dev_id (filter (\<lambda>d. dev_userId d = uid) (developers db))
      in db\<lparr>users := filter (\<lambda>u. usr_userId u \<noteq> uid) (users db),
            developers := filter (\<lambda>d. dev_userId d \<noteq> uid) (developers db),
            contacts := filter (\<lambda>c. con_userId c \<noteq> uid \<and> con_developerId c \<notin> set profiles)
                          (contacts db)\<rparr>)"

text \<open>
  \<^verbatim>\<open>DELETE /api/admin/users/:userId\<close> and \<^verbatim>\<open>DELETE /api/admin/developers/:id\<close>,
  with their middleware.
\<close>

definition admin_delete_user ::
  "(string \<Rightarrow> jwt_payload option) \<Rightarrow> string option \<Rightarrow> string \<Rightarrow> database
     \<Rightarrow> (http_error + unit) \<times> database" where
  "admin_delete_user jwt_verify authHeader uid db =
     (case authenticateToken jwt_verify authHeader of
        Inl e \<Rightarrow> (Inl e, db)
      | Inr user \<Rightarrow>
          (case isAdmin user of
             Inl e \<Rightarrow> (Inl e, db)
           | Inr _ \<Rightarrow>
               if filter (\<lambda>u. usr_userId u = uid) (users db) = [] then (Inl NotFound, db)
               else (Inr (), delete_user db uid)))"

definition admin_delete_developer ::
  "(string \<Rightarrow> jwt_payload option) \<Rightarrow> string option \<Rightarrow> string \<Rightarrow> database
     \<Rightarrow> (http_error + unit) \<times> database" where
  "admin_delete_developer jwt_verify authHeader i db =
     (case authenticateToken jwt_verify authHeader of
        Inl e \<Rightarrow> (Inl e, db)
      | Inr user \<Rightarrow>
          (case isAdmin user of
             Inl e \<Rightarrow> (Inl e, db)
           | Inr _ \<Rightarrow>
               if select_developer db i = [] then (Inl NotFound, db)
               else (Inr (), delete_developer db i)))"

section \<open>The system as a transition relation\<close>

text \<open>
  The tables right after \<^verbatim>\<open>initializeDatabase\<close> has created them.
\<close>

definition initial_database :: database where
  "initial_database = \<lparr>users = [], developers = [], contacts = []\<rparr>"

text \<open>
  One request served from start to end.  Three routes write to \<^verbatim>\<open>contacts\<close>
  (the insert of the contact route and the two cascading deletions).  Every other
  route runs only \<^verbatim>\<open>SELECT\<close> statements, \<^verbatim>\<open>INSERT INTO users\<close>,
  \<^verbatim>\<open>INSERT INTO developers\<close> or an \<^verbatim>\<open>UPDATE developers\<close> that never sets the
  key \<^verbatim>\<open>id\<close>; whatever it does to the other two tables, it leaves
  \<^verbatim>\<open>contacts\<close> as it is, which is all the rule \<open>other_route\<close> says of it.
\<close>

inductive system_step :: "database \<Rightarrow> database \<Rightarrow> bool" where
  contact_route:
    "system_step db (snd (post_contact jwt_verify authHeader i clk db))"
| delete_user_route:
    "system_step db (snd (admin_delete_user jwt_verify authHeader uid db))"
| delete_developer_route:
    "system_step db (snd (admin_delete_developer jwt_verify authHeader i db))"
| other_route:
    "contacts db' = contacts db \<Longrightarrow> system_step db db'"

text \<open>The invariant of the ledger: no two rows share the unique key.\<close>

definition unique_contact :: "database \<Rightarrow> bool" where
  "unique_contact db = distinct (map unique_contact_key (contacts db))"

section \<open>The contact handler, statement by statement\<close>

text \<open>
  The handler is an \<^verbatim>\<open>async\<close> function: it gives up control at every
  \<^verbatim>\<open>await pool.execute(...)\<close>, and the statements of other requests may run in
  between.  A request in flight is at one of its five statements, with the
  \<^verbatim>\<open>developer\<close> it has read, or it has responded.
\<close>

datatype contact_pc =
    At_select_developer
  | At_select_contacts developer_row
  | At_count developer_row
  | At_insert developer_row
  | At_remaining developer_row
  | Responded "http_error + jsobj \<times> int option"

text \<open>
  One statement of the handler together with the synchronous code that follows
  it, up to the next \<^verbatim>\<open>await\<close>.
\<close>

fun contact_step ::
  "jwt_payload \<Rightarrow> string \<Rightarrow> clock \<Rightarrow> contact_pc \<Rightarrow> database \<Rightarrow> contact_pc \<times> database" where
  "contact_step user i clk At_select_developer db =
     (case select_developer db i of
        [] \<Rightarrow> (Responded (Inl NotFound), db)
      | developer # _ \<Rightarrow>
          if dev_userId developer = jwt_userId user then (Responded (Inl SelfViewNotAllowed), db)
          else if jwt_role user = Student then (Responded (Inl RoleNotPermitted), db)
          else (At_select_contacts developer, db))"
| "contact_step user i clk (At_select_contacts developer) db =
     (let existingContacts = select_contacts db (jwt_userId user) i (today clk);
          alreadyViewed = (length existingContacts > 0)
      in if jwt_role user = Company \<and> \<not> alreadyViewed then (At_count developer, db)
         else if jwt_role user = Company then (At_remaining developer, db)
         else (Responded (Inr (JSON_stringify (developer_object developer), None)), db))"
| "contact_step user i clk (At_count developer) db =
     (if count_distinct_developers db (jwt_userId user) (today clk) \<ge> 10
      then (Responded (Inl QuotaExceeded), db)
      else (At_insert developer, db))"
| "contact_step user i clk (At_insert developer) db =
     (case insert_contact db (current_timestamp clk) (date_now clk)
             (jwt_userId user) i (today clk) of
        None \<Rightarrow> (Responded (Inl ServerError), db)
      | Some db' \<Rightarrow> (At_remaining developer, db'))"
| "contact_step user i clk (At_remaining developer) db =
     (Responded (Inr (JSON_stringify (developer_object developer),
                      Some (10 - int (count_distinct_developers db (jwt_userId user) (today clk))))),
      db)"
| "contact_step user i clk (Responded r) db = (Responded r, db)"

text \<open>A request in flight, and a server with its requests and its database.\<close>

record request =
  req_user :: jwt_payload
  req_id :: string
  req_clock :: clock
  req_pc :: contact_pc

definition new_request :: "jwt_payload \<Rightarrow> string \<Rightarrow> clock \<Rightarrow> request" where
  "new_request user i clk =
     \<lparr>req_user = user, req_id = i, req_clock = clk, req_pc = At_select_developer\<rparr>"

text \<open>The scheduler lets request number \<open>k\<close> run its next statement.\<close>

definition run_request :: "nat \<Rightarrow> request list \<times> database \<Rightarrow> request list \<times> database" where
  "run_request k cfg =
     (let (rs, db) = cfg
      in if k < length rs then
           (let r = rs ! k;
                (pc', db') = contact_step (req_user r) (req_id r) (req_clock r) (req_pc r) db
            in (rs[k := r\<lparr>req_pc := pc'\<rparr>], db'))
         else cfg)"

text \<open>A schedule is the order in which the requests take their turns.\<close>

fun run_schedule :: "nat list \<Rightarrow> request list \<times> database \<Rightarrow> request list \<times> database" where
  "run_schedule [] cfg = cfg"
| "run_schedule (k # ks) cfg = run_schedule ks (run_request k cfg)"

text \<open>What the statements of the theorems say of a serialised developer.\<close>

definition contact_info_absent :: "jsobj \<Rightarrow> bool" where
  "contact_info_absent obj =
     (property obj ''email'' = None \<and> property obj ''github'' = None
      \<and> property obj ''linkedin'' = None)"

section \<open>Sample data\<close>

text \<open>
  A small directory for the concrete instances below: a company, an administrator
  and eleven students, each student with a profile; the ledger holds the company's
  views of the given developers on one day.
\<close>

definition sample_verify :: "string \<Rightarrow> jwt_payload option" where
  "sample_verify t =
     (if t = ''company-token''
      then Some \<lparr>jwt_userId = ''c1'', jwt_email = ''hr@corp.example'', jwt_role = Company\<rparr>
      else if t = ''student-token''
      then Some \<lparr>jwt_userId = ''s-bea'', jwt_email = ''bea@uni.example'', jwt_role = Student\<rparr>
      else if t = ''admin-token''
      then Some \<lparr>jwt_userId = ''a1'', jwt_email = ''root@dir.example'', jwt_role = Admin\<rparr>
      else None)"

definition sample_company :: jwt_payload where
  "sample_company = \<lparr>jwt_userId = ''c1'', jwt_email = ''hr@corp.example'', jwt_role = Company\<rparr>"

definition sample_admin :: jwt_payload where
  "sample_admin = \<lparr>jwt_userId = ''a1'', jwt_email = ''root@dir.example'', jwt_role = Admin\<rparr>"

definition sample_student :: jwt_payload where
  "sample_student = \<lparr>jwt_userId = ''s-bea'', jwt_email = ''bea@uni.example'', jwt_role = Student\<rparr>"

definition sample_user :: "string \<Rightarrow> role \<Rightarrow> user_row" where
  "sample_user uid r =
     \<lparr>usr_userId = uid, usr_email = uid @ ''@dir.example'', usr_password = ''$2a$10$hash'',
      usr_name = uid, usr_role = r, usr_createdAt = 1\<rparr>"

definition sample_developer :: "string \<Rightarrow> developer_row" where
  "sample_developer n =
     \<lparr>dev_id = ''d-'' @ n, dev_userId = ''s-'' @ n, dev_firstName = ''Ada'', dev_lastName = n,
      dev_workType = ''remote'', dev_field = ''backend'',
      dev_github = Some (''https://github.com/'' @ n), dev_linkedin = None,
      dev_email = n @ ''@uni.example'', dev_createdAt = 2, dev_updatedAt = None\<rparr>"

definition sample_contact :: "string \<Rightarrow> contact_row" where
  "sample_contact n =
     \<lparr>con_id = ''k-'' @ n, con_userId = ''c1'', con_developerId = ''d-'' @ n,
      con_date = ''2024-05-01'', con_createdAt = 3\<rparr>"

definition sample_names :: "string list" where
  "sample_names = [''ali'', ''bea'', ''can'', ''eda'', ''efe'', ''gul'',
      ''ida'', ''jan'', ''kai'', ''lea'', ''mia'']"

definition sample_database :: "string list \<Rightarrow> database" where
  "sample_database viewed =
     \<lparr>users = sample_user ''c1'' Company # sample_user ''a1'' Admin
                # map (\<lambda>n. sample_user (''s-'' @ n) Student) sample_names,
      developers = map sample_developer sample_names,
      contacts = map sample_contact viewed\<rparr>"

definition sample_clock :: "string \<Rightarrow> clock" where
  "sample_clock ms = \<lparr>today = ''2024-05-01'', date_now = ms, current_timestamp = 4\<rparr>"

text \<open>
  A ledger with rows that the company's count of the day must leave out: the same
  company's view of a developer on the day before, and another company's view on
  the day itself.
\<close>

definition sample_mixed_database :: database where
  "sample_mixed_database =
     \<lparr>users = sample_user ''c2'' Company # users (sample_database []),
      developers = developers (sample_database []),
      contacts =
        [\<lparr>con_id = ''k-old'', con_userId = ''c1'', con_developerId = ''d-mia'',
          con_date = ''2024-04-30'', con_createdAt = 2\<rparr>,
         \<lparr>con_id = ''k-other'', con_userId = ''c2'', con_developerId = ''d-lea'',
          con_date = ''2024-05-01'', con_createdAt = 3\<rparr>]
        @ map sample_contact [''ali'', ''bea'', ''can'']\<rparr>"

section \<open>Lemmas on the read handlers\<close>

lemma hidden_properties:
  "property (JSON_stringify (hide_contact_info (developer_object d))) ''email'' = None"
  "property (JSON_stringify (hide_contact_info (developer_object d))) ''github'' = None"
  "property (JSON_stringify (hide_contact_info (developer_object d))) ''linkedin'' = None"
  by (simp_all add: property_def JSON_stringify_def hide_contact_info_def developer_object_def)

lemma JSON_stringify_developer_object:
  "JSON_stringify (developer_object d) = developer_object d"
  by (simp add: JSON_stringify_def developer_object_def nullable_def split: option.split)





section \<open>Lemmas on the ledger\<close>

text \<open>
  What the query counts: the developers of the viewer's rows of the day, each once.
\<close>

lemma distinct_developers_set:
  "set (distinct_developers db uid day)
   = con_developerId ` {c \<in> set (contacts db). con_userId c = uid \<and> con_date c = day}"
  by (auto simp: distinct_developers_def)

lemma distinct_developers_distinct: "distinct (distinct_developers db uid day)"
  by (simp add: distinct_developers_def)

lemma count_distinct_developers_card:
  "count_distinct_developers db uid day
   = card (con_developerId ` {c \<in> set (contacts db). con_userId c = uid \<and> con_date c = day})"
  unfolding count_distinct_developers_def
  using distinct_card [OF distinct_developers_distinct, of db uid day]
  by (simp add: distinct_developers_set)

lemma select_contacts_empty_iff:
  "select_contacts db uid i day = [] \<longleftrightarrow> i \<notin> set (distinct_developers db uid day)"
  by (auto simp: select_contacts_def distinct_developers_def filter_empty_conv image_iff)

lemma insert_contact_Some:
  assumes "insert_contact db now cid uid did day = Some db'"
  shows "contacts db' = contacts db @ [\<lparr>con_id = cid, con_userId = uid, con_developerId = did,
                                        con_date = day, con_createdAt = now\<rparr>]"
    and "developers db' = developers db"
    and "users db' = users db"
    and "(uid, did, day) \<notin> set (map unique_contact_key (contacts db))"
  using assms
  by (auto simp: insert_contact_def Let_def unique_contact_key_def split: if_splits)

lemma select_developer_insert_contact:
  "insert_contact db now cid uid did day = Some db' \<Longrightarrow> select_developer db' i = select_developer db i"
  by (simp add: select_developer_def insert_contact_Some(2))

lemma select_contacts_insert_contact:
  "insert_contact db now cid uid did day = Some db' \<Longrightarrow>
     select_contacts db' uid did day
     = select_contacts db uid did day @ [\<lparr>con_id = cid, con_userId = uid, con_developerId = did,
                                        con_date = day, con_createdAt = now\<rparr>]"
  by (simp add: select_contacts_def insert_contact_Some(1))

lemma filter_key_le_one:
  "distinct (map f xs) \<Longrightarrow> length (filter (\<lambda>x. f x = k) xs) \<le> Suc 0"
  by (induction xs) (auto simp: filter_empty_conv image_iff)

lemma select_contacts_key:
  "select_contacts db uid did day = filter (\<lambda>c. unique_contact_key c = (uid, did, day)) (contacts db)"
  by (simp add: select_contacts_def unique_contact_key_def)

lemma unique_contact_at_most_one:
  "unique_contact db \<Longrightarrow> length (select_contacts db uid did day) \<le> Suc 0"
  unfolding select_contacts_key unique_contact_def by (rule filter_key_le_one)

lemma unique_contact_insert_contact:
  assumes "unique_contact db" and "insert_contact db now cid uid did day = Some db'"
  shows "unique_contact db'"
  using assms insert_contact_Some(1,4)[OF assms(2)]
  by (auto simp: unique_contact_def unique_contact_key_def)

lemma unique_contact_viewContact:
  "unique_contact db \<Longrightarrow> unique_contact (snd (viewContact user i clk db))"
  by (auto simp: viewContact_def Let_def unique_contact_insert_contact
      split: list.splits option.splits)

lemma unique_contact_post_contact:
  "unique_contact db \<Longrightarrow> unique_contact (snd (post_contact jwt_verify authHeader i clk db))"
  by (auto simp: post_contact_def unique_contact_viewContact split: sum.splits)

lemma unique_contact_delete_user:
  "unique_contact db \<Longrightarrow> unique_contact (delete_user db uid)"
  by (simp add: unique_contact_def delete_user_def distinct_map_filter)

lemma unique_contact_delete_developer:
  "unique_contact db \<Longrightarrow> unique_contact (delete_developer db i)"
  by (simp add: unique_contact_def delete_developer_def distinct_map_filter)

lemma unique_contact_admin_delete_user:
  "unique_contact db \<Longrightarrow> unique_contact (snd (admin_delete_user jwt_verify authHeader uid db))"
  by (auto simp: admin_delete_user_def unique_contact_delete_user split: sum.splits)

lemma unique_contact_admin_delete_developer:
  "unique_contact db \<Longrightarrow> unique_contact (snd (admin_delete_developer jwt_verify authHeader i db))"
  by (auto simp: admin_delete_developer_def unique_contact_delete_developer split: sum.splits)

lemma unique_contact_system_step:
  "system_step db db' \<Longrightarrow> unique_contact db \<Longrightarrow> unique_contact db'"
proof (induction rule: system_step.induct)
  case (contact_route db jwt_verify authHeader i clk)
  then show ?case by (rule unique_contact_post_contact)
next
  case (delete_user_route db jwt_verify authHeader uid)
  then show ?case by (rule unique_contact_admin_delete_user)
next
  case (delete_developer_route db jwt_verify authHeader i)
  then show ?case by (rule unique_contact_admin_delete_developer)
next
  case (other_route db' db)
  then show ?case by (simp add: unique_contact_def)
qed

lemma unique_contact_reachable:
  "system_step\<^sup>*\<^sup>* db db' \<Longrightarrow> unique_contact db \<Longrightarrow> unique_contact db'"
  by (induction rule: rtranclp_induct) (auto intro: unique_contact_system_step)

text \<open>
  A request without a valid token never reaches the contact handler: the middleware
  answers, and the database stays as it is.
\<close>

lemma post_contact_unauthenticated:
  "authenticateToken jwt_verify authHeader = Inl e \<Longrightarrow>
     post_contact jwt_verify authHeader i clk db = (Inl e, db)"
  by (simp add: post_contact_def)

section \<open>Lemmas on the handler run statement by statement\<close>





text \<open>
  A request that takes its five turns with nothing in between is the handler run
  from start to end.
\<close>

lemma contact_steps_viewContact:
  "run_schedule [0, 0, 0, 0, 0] ([new_request user i clk], db)
   = ([(new_request user i clk)\<lparr>req_pc := Responded (fst (viewContact user i clk db))\<rparr>],
      snd (viewContact user i clk db))"
  by (auto simp: run_request_def new_request_def viewContact_def Let_def
      split: list.splits option.splits)

section \<open>The claims\<close>

subsection \<open>C1: contact fields in the read projection\<close>



subsection \<open>C2: the quota boundary\<close>

text \<open>
  Claim C2.  A company that has recorded exactly 10 distinct developers today
  asks for an existing developer it does not own.  When the developer is not one
  of the ten, the answer is 429 (\<open>QuotaExceeded\<close>) and the database is the one
  before the call; when the developer is one of the ten, the call succeeds, with
  0 contacts remaining, and records nothing either.
\<close>

theorem C2_quota_boundary:
  assumes "jwt_role user = Company"
      and "select_developer db i = d # ds"
      and "dev_userId d \<noteq> jwt_userId user"
      and "count_distinct_developers db (jwt_userId user) (today clk) = 10"
  shows "(i \<notin> set (distinct_developers db (jwt_userId user) (today clk))
            \<longrightarrow> viewContact user i clk db = (Inl QuotaExceeded, db))
       \<and> (i \<in> set (distinct_developers db (jwt_userId user) (today clk))
            \<longrightarrow> viewContact user i clk db = (Inr (developer_object d, Some 0), db))"
  using assms select_contacts_empty_iff [of db "jwt_userId user" i "today clk"]
  by (auto simp: viewContact_def Let_def JSON_stringify_developer_object)

theorem C2_quota_boundary_witness:
  "count_distinct_developers (sample_database (take 10 sample_names)) ''c1'' ''2024-05-01'' = 10
   \<and> viewContact sample_company ''d-mia'' (sample_clock ''1714550000001'')
         (sample_database (take 10 sample_names))
       = (Inl QuotaExceeded, sample_database (take 10 sample_names))
   \<and> viewContact sample_company ''d-eda'' (sample_clock ''1714550000001'')
         (sample_database (take 10 sample_names))
       = (Inr (developer_object (sample_developer ''eda''), Some 0),
          sample_database (take 10 sample_names))"
proof -
  let ?db = "sample_database (take 10 sample_names)"
  let ?clk = "sample_clock ''1714550000001''"
  have company: "jwt_role sample_company = Company"
    by (simp add: sample_company_def)
  have uid: "jwt_userId sample_company = ''c1''" and day: "today ?clk = ''2024-05-01''"
    by (simp_all add: sample_company_def sample_clock_def)
  have count: "count_distinct_developers ?db (jwt_userId sample_company) (today ?clk) = 10"
    by code_simp
  have sel11: "select_developer ?db ''d-mia'' = sample_developer ''mia'' # []"
    by code_simp
  have sel4: "select_developer ?db ''d-eda'' = sample_developer ''eda'' # []"
    by code_simp
  have other11: "dev_userId (sample_developer ''mia'') \<noteq> jwt_userId sample_company"
    by code_simp
  have other4: "dev_userId (sample_developer ''eda'') \<noteq> jwt_userId sample_company"
    by code_simp
  have new: "''d-mia'' \<notin> set (distinct_developers ?db (jwt_userId sample_company) (today ?clk))"
    by code_simp
  have seen: "''d-eda'' \<in> set (distinct_developers ?db (jwt_userId sample_company) (today ?clk))"
    by code_simp
  show ?thesis
    using C2_quota_boundary [OF company sel11 other11 count]
      C2_quota_boundary [OF company sel4 other4 count] new seen count
    by (simp add: uid day)
qed

subsection \<open>C3: a second view on the same day\<close>

text \<open>
  Claim C3.  When a company's call for a developer has succeeded, a second call
  by the same company for the same developer on the same day (whatever the clock
  reads otherwise) returns the same developer and the same
  \<^verbatim>\<open>remainingContacts\<close> and leaves the database as the first call left it: no
  new row.  Starting from a ledger that respects its unique key, the ledger then
  holds exactly one row for the viewer, the developer and the day.
\<close>

theorem C3_idempotent_view:
  assumes company: "jwt_role user = Company"
      and first: "viewContact user i clk db = (Inr (obj, rq), db')"
      and day: "today clk2 = today clk"
  shows "viewContact user i clk2 db' = (Inr (obj, rq), db')
       \<and> (unique_contact db \<longrightarrow> length (select_contacts db' (jwt_userId user) i (today clk)) = 1)"
proof (cases "select_developer db i")
  case Nil
  with first show ?thesis by (simp add: viewContact_def)
next
  case (Cons d ds)
  note sel = Cons
  from first sel have other: "dev_userId d \<noteq> jwt_userId user"
    by (auto simp: viewContact_def split: if_splits)
  show ?thesis
  proof (cases "select_contacts db (jwt_userId user) i (today clk) = []")
    case False
    with first sel company other have same: "db' = db"
      and res: "obj = developer_object d"
        "rq = Some (10 - int (count_distinct_developers db (jwt_userId user) (today clk)))"
      by (auto simp: viewContact_def Let_def JSON_stringify_developer_object)
    have again: "viewContact user i clk2 db' = (Inr (obj, rq), db')"
      using False sel company other same res day
      by (simp add: viewContact_def Let_def JSON_stringify_developer_object)
    have "unique_contact db \<Longrightarrow> length (select_contacts db (jwt_userId user) i (today clk)) = 1"
      using unique_contact_at_most_one [of db "jwt_userId user" i "today clk"] False
      by (cases "select_contacts db (jwt_userId user) i (today clk)") auto
    with again same show ?thesis by simp
  next
    case True
    with first sel company other obtain
      ins: "insert_contact db (current_timestamp clk) (date_now clk) (jwt_userId user) i (today clk)
              = Some db'"
      and res: "obj = developer_object d"
        "rq = Some (10 - int (count_distinct_developers db' (jwt_userId user) (today clk)))"
      by (auto simp: viewContact_def Let_def JSON_stringify_developer_object
          split: if_splits option.splits)
    have rows: "select_contacts db' (jwt_userId user) i (today clk)
        = [\<lparr>con_id = date_now clk, con_userId = jwt_userId user, con_developerId = i,
            con_date = today clk, con_createdAt = current_timestamp clk\<rparr>]"
      using select_contacts_insert_contact [OF ins] True by simp
    have sel': "select_developer db' i = d # ds"
      using select_developer_insert_contact [OF ins] sel by simp
    have "viewContact user i clk2 db' = (Inr (obj, rq), db')"
      using rows sel' company other res day
      by (simp add: viewContact_def Let_def JSON_stringify_developer_object)
    with rows show ?thesis by simp
  qed
qed

theorem C3_idempotent_view_witness:
  "fst (viewContact sample_company ''d-ali'' (sample_clock ''1714550000001'') (sample_database []))
     = Inr (developer_object (sample_developer ''ali''), Some 9)
   \<and> viewContact sample_company ''d-ali'' (sample_clock ''1714550000002'')
        (snd (viewContact sample_company ''d-ali'' (sample_clock ''1714550000001'') (sample_database [])))
     = (Inr (developer_object (sample_developer ''ali''), Some 9),
        snd (viewContact sample_company ''d-ali'' (sample_clock ''1714550000001'') (sample_database [])))
   \<and> length (select_contacts
        (snd (viewContact sample_company ''d-ali'' (sample_clock ''1714550000001'') (sample_database [])))
        ''c1'' ''d-ali'' ''2024-05-01'') = 1"
proof -
  let ?db = "sample_database []"
  let ?clk = "sample_clock ''1714550000001''"
  let ?clk2 = "sample_clock ''1714550000002''"
  have company: "jwt_role sample_company = Company"
    by (simp add: sample_company_def)
  have uid: "jwt_userId sample_company = ''c1''" and day: "today ?clk = ''2024-05-01''"
    by (simp_all add: sample_company_def sample_clock_def)
  have res: "fst (viewContact sample_company ''d-ali'' ?clk ?db)
      = Inr (developer_object (sample_developer ''ali''), Some 9)"
    by code_simp
  then have first: "viewContact sample_company ''d-ali'' ?clk ?db
      = (Inr (developer_object (sample_developer ''ali''), Some 9),
         snd (viewContact sample_company ''d-ali'' ?clk ?db))"
    by (simp add: prod_eq_iff)
  have same_day: "today ?clk2 = today ?clk"
    by (simp add: sample_clock_def)
  have unique: "unique_contact ?db"
    by code_simp
  show ?thesis
    using C3_idempotent_view [OF company first same_day] res unique
    by (simp add: uid day)
qed

subsection \<open>C4: the unique key of the ledger\<close>

text \<open>
  Claim C4.  No two rows of \<^verbatim>\<open>contacts\<close> share viewer, developer and day.
  This holds of the tables as created, every step of the system preserves it, and
  so it holds in every reachable database, after any number of contact requests:
  there a viewer, a developer and a day select at most one row.
\<close>

theorem C4_unique_contact_invariant:
  "unique_contact initial_database
   \<and> (\<forall>db db'. unique_contact db \<and> system_step db db' \<longrightarrow> unique_contact db')
   \<and> (\<forall>db. system_step\<^sup>*\<^sup>* initial_database db \<longrightarrow>
         unique_contact db
         \<and> (\<forall>uid did day. length (select_contacts db uid did day) \<le> 1))"
proof -
  have init: "unique_contact initial_database"
    by (simp add: unique_contact_def initial_database_def)
  show ?thesis
    using init unique_contact_system_step unique_contact_reachable unique_contact_at_most_one
    by (metis One_nat_def)
qed

theorem C4_unique_contact_invariant_witness:
  "system_step\<^sup>*\<^sup>* initial_database
     (snd (post_contact sample_verify (Some ''Bearer company-token'') ''d-ali''
        (sample_clock ''1714550000002'')
        (snd (post_contact sample_verify (Some ''Bearer company-token'') ''d-ali''
           (sample_clock ''1714550000001'') (sample_database [])))))
   \<and> unique_contact
     (snd (post_contact sample_verify (Some ''Bearer company-token'') ''d-ali''
        (sample_clock ''1714550000002'')
        (snd (post_contact sample_verify (Some ''Bearer company-token'') ''d-ali''
           (sample_clock ''1714550000001'') (sample_database [])))))
   \<and> length (select_contacts
       (snd (post_contact sample_verify (Some ''Bearer company-token'') ''d-ali''
          (sample_clock ''1714550000002'')
          (snd (post_contact sample_verify (Some ''Bearer company-token'') ''d-ali''
             (sample_clock ''1714550000001'') (sample_database [])))))
       ''c1'' ''d-ali'' ''2024-05-01'') = 1"
proof -
  let ?db1 = "snd (post_contact sample_verify (Some ''Bearer company-token'') ''d-ali''
             (sample_clock ''1714550000001'') (sample_database []))"
  let ?db2 = "snd (post_contact sample_verify (Some ''Bearer company-token'') ''d-ali''
             (sample_clock ''1714550000002'') ?db1)"
  have "contacts (sample_database []) = contacts initial_database"
    by (simp add: sample_database_def initial_database_def)
  then have s1: "system_step initial_database (sample_database [])"
    by (rule other_route)
  have s2: "system_step (sample_database []) ?db1"
    by (rule contact_route)
  have s3: "system_step ?db1 ?db2"
    by (rule contact_route)
  have reach: "system_step\<^sup>*\<^sup>* initial_database ?db2"
    using s1 s2 s3 by (meson rtranclp.rtrancl_into_rtrancl rtranclp.rtrancl_refl)
  have rows: "length (select_contacts ?db2 ''c1'' ''d-ali'' ''2024-05-01'') = 1"
    by code_simp
  show ?thesis
    using C4_unique_contact_invariant reach rows by blast
qed

subsection \<open>C5: an invalid credential reads as no credential\<close>

text \<open>
  Claim C5.  A request whose token \<^verbatim>\<open>jwt.verify\<close> rejects (invalid or expired)
  gets from both read routes exactly the response of a request with no
  \<^verbatim>\<open>authorization\<close> header, and that response is the redacted one: every object
  of the list, and the object of the single-record route, lacks the three contact
  properties.
\<close>

theorem C5_invalid_credential:
  assumes "header_token authorization = Some t" and "t \<noteq> []" and "jwt_verify t = None"
  shows "get_developers jwt_verify authorization db = get_developers jwt_verify None db
       \<and> get_developer jwt_verify authorization i db = get_developer jwt_verify None i db
       \<and> (\<forall>obj \<in> set (get_developers jwt_verify authorization db). contact_info_absent obj)
       \<and> (case get_developer jwt_verify authorization i db of
             Inl e \<Rightarrow> e = NotFound \<and> select_developer db i = []
           | Inr obj \<Rightarrow> contact_info_absent obj)"
  using assms
  by (auto simp: get_developers_def get_developer_def header_token_def Let_def
      contact_info_absent_def hidden_properties split: list.splits)

theorem C5_invalid_credential_witness:
  "header_token (Some ''Bearer expired-token'') = Some ''expired-token''
   \<and> sample_verify ''expired-token'' = None
   \<and> get_developers sample_verify (Some ''Bearer expired-token'') (sample_database [])
       = get_developers sample_verify None (sample_database [])
   \<and> get_developer sample_verify (Some ''Bearer expired-token'') ''d-can'' (sample_database [])
       = get_developer sample_verify None ''d-can'' (sample_database [])
   \<and> get_developer sample_verify None ''d-can'' (sample_database [])
       = Inr (JSON_stringify (hide_contact_info (developer_object (sample_developer ''can''))))"
proof -
  have tok: "header_token (Some ''Bearer expired-token'') = Some ''expired-token''"
    by code_simp
  have ne: "''expired-token'' \<noteq> []"
    by simp
  have bad: "sample_verify ''expired-token'' = None"
    by code_simp
  have single: "get_developer sample_verify None ''d-can'' (sample_database [])
       = Inr (JSON_stringify (hide_contact_info (developer_object (sample_developer ''can''))))"
    by code_simp
  show ?thesis
    using C5_invalid_credential [where jwt_verify = sample_verify and db = "sample_database []"
        and i = "''d-can''", OF tok ne bad] tok bad single
    by simp
qed

subsection \<open>C6: the order of the preconditions\<close>

text \<open>
  Claim C6.  The contact handler, for every authenticated principal
  \<^verbatim>\<open>req.user\<close>: an id that selects no developer is answered 404 (\<open>NotFound\<close>)
  whoever asks; a developer owned by the caller is answered 400
  (\<open>SelfViewNotAllowed\<close>) whatever the caller's role; a student asking for another
  user's developer is answered 403 (\<open>RoleNotPermitted\<close>).  In each case the
  database is unchanged.
\<close>

theorem C6_precondition_order:
  "(select_developer db i = [] \<longrightarrow> viewContact user i clk db = (Inl NotFound, db))
   \<and> (select_developer db i = d # ds \<and> dev_userId d = jwt_userId user
        \<longrightarrow> viewContact user i clk db = (Inl SelfViewNotAllowed, db))
   \<and> (select_developer db i = d # ds \<and> dev_userId d \<noteq> jwt_userId user \<and> jwt_role user = Student
        \<longrightarrow> viewContact user i clk db = (Inl RoleNotPermitted, db))"
  by (simp add: viewContact_def)

theorem C6_precondition_order_witness:
  "viewContact sample_student ''d-zed'' (sample_clock ''1714550000001'') (sample_database [])
     = (Inl NotFound, sample_database [])
   \<and> viewContact sample_student ''d-bea'' (sample_clock ''1714550000001'') (sample_database [])
     = (Inl SelfViewNotAllowed, sample_database [])
   \<and> viewContact sample_student ''d-can'' (sample_clock ''1714550000001'') (sample_database [])
     = (Inl RoleNotPermitted, sample_database [])"
proof -
  let ?db = "sample_database []"
  let ?clk = "sample_clock ''1714550000001''"
  have none: "select_developer ?db ''d-zed'' = []"
    by code_simp
  have own: "select_developer ?db ''d-bea'' = sample_developer ''bea'' # []
      \<and> dev_userId (sample_developer ''bea'') = jwt_userId sample_student"
    by code_simp
  have other: "select_developer ?db ''d-can'' = sample_developer ''can'' # []
      \<and> dev_userId (sample_developer ''can'') \<noteq> jwt_userId sample_student
      \<and> jwt_role sample_student = Student"
    by code_simp
  show ?thesis
    using C6_precondition_order [where db = ?db and i = "''d-zed''" and user = sample_student
        and clk = ?clk]
      C6_precondition_order [where db = ?db and i = "''d-bea''" and user = sample_student
        and clk = ?clk and d = "sample_developer ''bea''" and ds = "[]"]
      C6_precondition_order [where db = ?db and i = "''d-can''" and user = sample_student
        and clk = ?clk and d = "sample_developer ''can''" and ds = "[]"]
      none own other
    by simp
qed

subsection \<open>C7: the administrator bypasses the ledger\<close>

text \<open>
  Claim C7.  An administrator's call for an existing developer they do not own
  succeeds with the full record and \<^verbatim>\<open>remainingContacts = null\<close>, and the
  database after the call is the database before it.
\<close>

theorem C7_admin_bypass:
  assumes "jwt_role user = Admin" and "select_developer db i = d # ds"
      and "dev_userId d \<noteq> jwt_userId user"
  shows "viewContact user i clk db = (Inr (developer_object d, None), db)"
  using assms by (simp add: viewContact_def JSON_stringify_developer_object)

theorem C7_admin_bypass_witness:
  "viewContact sample_admin ''d-can'' (sample_clock ''1714550000001'') (sample_database [''ali''])
     = (Inr (developer_object (sample_developer ''can''), None), sample_database [''ali''])"
proof -
  have admin: "jwt_role sample_admin = Admin"
    by (simp add: sample_admin_def)
  have sel: "select_developer (sample_database [''ali'']) ''d-can'' = sample_developer ''can'' # []"
    by code_simp
  have other: "dev_userId (sample_developer ''can'') \<noteq> jwt_userId sample_admin"
    by code_simp
  show ?thesis
    using C7_admin_bypass [OF admin sel other] .
qed

subsection \<open>C8: a successful call returns the full record\<close>



subsection \<open>C9: recording a view under concurrent requests\<close>




subsection \<open>C10: the quota status\<close>

text \<open>
  Claim C10.  For every principal and every ledger, the statistics handler
  returns the limit 10; as \<^verbatim>\<open>contactsToday\<close> the number of distinct developers
  that the principal has recorded on the day, that is the cardinality of the set of
  \<^verbatim>\<open>developerId\<close>s among the rows of \<^verbatim>\<open>contacts\<close> whose \<^verbatim>\<open>userId\<close> is the
  principal's and whose \<^verbatim>\<open>date\<close> is the day (rows of other viewers and of other
  days do not count, and a developer counts once); and \<open>max 0 (10 - count)\<close> as
  the remaining contacts, which is never negative.  The route gives this to every
  company.  The contact handler, when it succeeds for a company, returns
  \<open>10 - count\<close> over the ledger after the call, with no clamping: over a ledger of
  eleven distinct developers the statistics say 0 and the contact handler says -1.
\<close>

theorem C10_quota_status:
  "limit (contact_stats user day db) = 10
   \<and> contactsToday (contact_stats user day db) = count_distinct_developers db (jwt_userId user) day
   \<and> contactsToday (contact_stats user day db)
       = card (con_developerId `
           {c \<in> set (contacts db). con_userId c = jwt_userId user \<and> con_date c = day})
   \<and> remainingContacts (contact_stats user day db)
       = max 0 (10 - int (count_distinct_developers db (jwt_userId user) day))
   \<and> remainingContacts (contact_stats user day db)
       = max 0 (10 - int (card (con_developerId `
           {c \<in> set (contacts db). con_userId c = jwt_userId user \<and> con_date c = day})))
   \<and> 0 \<le> remainingContacts (contact_stats user day db)
   \<and> (authenticateToken jwt_verify authHeader = Inr user \<and> jwt_role user = Company
        \<longrightarrow> get_contact_stats jwt_verify authHeader day db = Inr (contact_stats user day db))
   \<and> (jwt_role user = Company \<and> viewContact user i clk db = (Inr (obj, rq), db')
        \<longrightarrow> rq = Some (10 - int (count_distinct_developers db' (jwt_userId user) (today clk)))
          \<and> rq = Some (10 - int (card (con_developerId `
               {c \<in> set (contacts db'). con_userId c = jwt_userId user
                  \<and> con_date c = today clk}))))"
proof -
  have stats: "contactsToday (contact_stats user day db)
        = count_distinct_developers db (jwt_userId user) day"
      "remainingContacts (contact_stats user day db)
        = max 0 (10 - int (count_distinct_developers db (jwt_userId user) day))"
      "limit (contact_stats user day db) = 10"
    by (simp_all add: contact_stats_def Let_def)
  have route: "get_contact_stats jwt_verify authHeader day db = Inr (contact_stats user day db)"
    if "authenticateToken jwt_verify authHeader = Inr user" and "jwt_role user = Company"
    using that by (simp add: get_contact_stats_def isCompany_def)
  have view: "rq = Some (10 - int (count_distinct_developers db' (jwt_userId user) (today clk)))"
    if "jwt_role user = Company" and "viewContact user i clk db = (Inr (obj, rq), db')"
    using that
    by (auto simp: viewContact_def Let_def split: list.splits if_splits option.splits sum.splits)
  show ?thesis
    using stats route view
    by (simp add: count_distinct_developers_card [symmetric])
qed

theorem C10_quota_status_witness:
  "get_contact_stats sample_verify (Some ''Bearer company-token'') ''2024-05-01''
       (sample_database sample_names)
     = Inr \<lparr>contactsToday = 11, remainingContacts = 0, limit = 10\<rparr>
   \<and> fst (viewContact sample_company ''d-ali'' (sample_clock ''1714550000001'')
            (sample_database sample_names))
     = Inr (developer_object (sample_developer ''ali''), Some (- 1))
   \<and> length (contacts sample_mixed_database) = 5
   \<and> contact_stats sample_company ''2024-05-01'' sample_mixed_database
     = \<lparr>contactsToday = 3, remainingContacts = 7, limit = 10\<rparr>
   \<and> card (con_developerId `
        {c \<in> set (contacts sample_mixed_database).
           con_userId c = ''c1'' \<and> con_date c = ''2024-05-01''}) = 3
   \<and> contact_stats sample_company ''2024-05-02'' sample_mixed_database
     = \<lparr>contactsToday = 0, remainingContacts = 10, limit = 10\<rparr>
   \<and> card (con_developerId `
        {c \<in> set (contacts sample_mixed_database).
           con_userId c = ''c1'' \<and> con_date c = ''2024-05-02''}) = 0"
proof -
  let ?db = "sample_database sample_names"
  let ?clk = "sample_clock ''1714550000001''"
  have auth: "authenticateToken sample_verify (Some ''Bearer company-token'') = Inr sample_company"
    by code_simp
  have company: "jwt_role sample_company = Company"
    by (simp add: sample_company_def)
  have uid: "jwt_userId sample_company = ''c1''"
    by (simp add: sample_company_def)
  have stats: "contact_stats sample_company ''2024-05-01'' ?db
      = \<lparr>contactsToday = 11, remainingContacts = 0, limit = 10\<rparr>"
    by code_simp
  have res: "fst (viewContact sample_company ''d-ali'' ?clk ?db)
      = Inr (developer_object (sample_developer ''ali''), Some (- 1))"
    by code_simp
  have rows: "length (contacts sample_mixed_database) = 5"
    by code_simp
  have mixed: "contact_stats sample_company ''2024-05-01'' sample_mixed_database
      = \<lparr>contactsToday = 3, remainingContacts = 7, limit = 10\<rparr>"
    by code_simp
  have next_day: "contact_stats sample_company ''2024-05-02'' sample_mixed_database
      = \<lparr>contactsToday = 0, remainingContacts = 10, limit = 10\<rparr>"
    by code_simp
  show ?thesis
    using C10_quota_status [where user = sample_company and day = "''2024-05-01''" and db = ?db
        and jwt_verify = sample_verify and authHeader = "Some ''Bearer company-token''"]
      C10_quota_status [where user = sample_company and day = "''2024-05-01''"
        and db = sample_mixed_database]
      C10_quota_status [where user = sample_company and day = "''2024-05-02''"
        and db = sample_mixed_database]
      auth company stats res rows mixed next_day
    by (simp add: uid)
qed

end
